theory Spec2Isabelle
  imports Main "HOL-Library.Sublist"
begin

section \<open>Strings\<close>

text \<open>
  Strings are \<^typ>\<open>string\<close>. The classes of characters the toolkit's checks speak of are
  written out: the upper-case letters, the lower-case letters and the digits of ASCII.
\<close>

definition upperLetters :: string where
  "upperLetters = ''ABCDEFGHIJKLMNOPQRSTUVWXYZ''"

definition lowerLetters :: string where
  "lowerLetters = ''abcdefghijklmnopqrstuvwxyz''"

definition digits :: string where
  "digits = ''0123456789''"


text \<open>
  The folding of letter case on ASCII: the letters \<open>A\<close> .. \<open>Z\<close> (code points 65 .. 90) move
  up by 32, every other character stays. The access-management service compares action names
  this way. It is also what the built-in \<^verbatim>\<open>String.prototype.toLocaleLowerCase\<close> does to a
  string of ASCII characters on a host whose locale has no rule of its own for these letters
  (every locale but the Turkic ones); the built-in itself is no part of the repository and is
  a parameter of the stack below.
\<close>

definition isUpperChar :: "char \<Rightarrow> bool" where
  "isUpperChar c = (65 \<le> (of_char c :: nat) \<and> (of_char c :: nat) \<le> 90)"

definition asciiLowerChar :: "char \<Rightarrow> char" where
  "asciiLowerChar c = (if isUpperChar c then char_of ((of_char c :: nat) + 32) else c)"

definition asciiLowerCase :: "string \<Rightarrow> string" where
  "asciiLowerCase s = map asciiLowerChar s"

section \<open>The construct library's configuration records\<close>

text \<open>
  Every construct is created as \<^verbatim>\<open>new K(this, id, props)\<close>: the record of a construct holds
  the \<open>id\<close> it was created under (the field ending in \<open>_id\<close>) and the properties the source
  passes. An attribute that is only known at deployment (\<^verbatim>\<open>bucket.bucketWebsiteUrl\<close>,
  \<^verbatim>\<open>dist.distributionId\<close>, \<^verbatim>\<open>dist.domainName\<close>) is a \<open>Token\<close> naming the construct it
  belongs to.
\<close>

datatype Token =
    BucketWebsiteUrl string
  | DistributionId string
  | DistributionDomainName string

datatype RemovalPolicy = DESTROY | RETAIN | SNAPSHOT

record Bucket =
  bucket_id :: string
  bucketName :: string
  removalPolicy :: RemovalPolicy
  websiteIndexDocument :: string
  websiteErrorDocument :: string
  publicReadAccess :: bool

definition bucketWebsiteUrl :: "Bucket \<Rightarrow> Token" where
  "bucketWebsiteUrl b = BucketWebsiteUrl (bucket_id b)"

datatype ViewerProtocolPolicy = HTTPS_ONLY | REDIRECT_TO_HTTPS | ALLOW_ALL

datatype OriginRequestPolicy = USER_AGENT_REFERER_HEADERS | CORS_CUSTOM_ORIGIN | CORS_S3_ORIGIN | ALL_VIEWER

datatype Origin = S3Origin (originBucket: Bucket)

record BehaviorOptions =
  origin :: Origin
  viewerProtocolPolicy :: ViewerProtocolPolicy
  originRequestPolicy :: OriginRequestPolicy

record Distribution =
  distribution_id :: string
  defaultBehavior :: BehaviorOptions

definition distributionId :: "Distribution \<Rightarrow> Token" where
  "distributionId d = DistributionId (distribution_id d)"

definition domainName :: "Distribution \<Rightarrow> Token" where
  "domainName d = DistributionDomainName (distribution_id d)"

subsection \<open>Build projects\<close>

text \<open>
  \<^verbatim>\<open>BuildSpec.fromObject\<close> takes a plain object; it is kept as the tree it is, the fields
  of an object in the order they are written.
\<close>

datatype json = JString string | JArray "json list" | JObject "(string \<times> json) list"

fun field :: "string \<Rightarrow> json \<Rightarrow> json option" where
  "field k (JObject kvs) = map_of kvs k"
| "field k (JString s) = None"
| "field k (JArray xs) = None"

fun fieldNames :: "json \<Rightarrow> string list" where
  "fieldNames (JObject kvs) = map fst kvs"
| "fieldNames (JString s) = []"
| "fieldNames (JArray xs) = []"

datatype Effect = ALLOW | DENY

record PolicyStatement =
  effect :: Effect
  resources :: "string list"
  actions :: "string list"

datatype LinuxBuildImage = STANDARD_1_0 | STANDARD_2_0 | STANDARD_3_0 | STANDARD_4_0 | STANDARD_5_0

record BuildEnvironment =
  buildImage :: LinuxBuildImage

record PipelineProject =
  project_id :: string
  projectName :: string
  buildSpec :: json
  environment :: "BuildEnvironment option"
  environmentVariables :: "(string \<times> Token) list"
  rolePolicy :: "PolicyStatement list"

definition addToRolePolicy :: "PipelineProject \<Rightarrow> PolicyStatement \<Rightarrow> PipelineProject" where
  "addToRolePolicy p s = p\<lparr>rolePolicy := rolePolicy p @ [s]\<rparr>"

subsection \<open>Artifacts, actions, stages, the pipeline\<close>

text \<open>
  Both artifacts are created without a name, so all that tells them apart is which object
  they are: \<open>artifactRef\<close> is the position of the \<^verbatim>\<open>new CodePipeline.Artifact()\<close> among the
  artifacts the constructor creates.
\<close>

record Artifact =
  artifactRef :: nat
  artifactName :: "string option"

definition newArtifact :: "nat \<Rightarrow> Artifact" where
  "newArtifact n = \<lparr>artifactRef = n, artifactName = None\<rparr>"

datatype SecretValue = secretsManager string

datatype Action =
    GitHubSourceAction (actionName: string) (owner: string) (repo: string)
      (oauthToken: SecretValue) (outputArtifact: Artifact) (branch: string)
  | CodeBuildAction (actionName: string) (project: PipelineProject) (input: Artifact)
      (outputs: "Artifact list option") (runOrder: "nat option")
  | S3DeployAction (actionName: string) (input: Artifact) (bucket: Bucket)
      (runOrder: "nat option")

fun actionInputs :: "Action \<Rightarrow> Artifact list" where
  "actionInputs (GitHubSourceAction n ow rp tok out br) = []"
| "actionInputs (CodeBuildAction n pr inp outs ro) = [inp]"
| "actionInputs (S3DeployAction n inp b ro) = [inp]"

fun actionOutputs :: "Action \<Rightarrow> Artifact list" where
  "actionOutputs (GitHubSourceAction n ow rp tok out br) = [out]"
| "actionOutputs (CodeBuildAction n pr inp outs ro) = (case outs of None \<Rightarrow> [] | Some os \<Rightarrow> os)"
| "actionOutputs (S3DeployAction n inp b ro) = []"

fun actionProjects :: "Action \<Rightarrow> PipelineProject list" where
  "actionProjects (CodeBuildAction n pr inp outs ro) = [pr]"
| "actionProjects (GitHubSourceAction n ow rp tok out br) = []"
| "actionProjects (S3DeployAction n inp b ro) = []"

fun actionBuckets :: "Action \<Rightarrow> Bucket list" where
  "actionBuckets (S3DeployAction n inp b ro) = [b]"
| "actionBuckets (GitHubSourceAction n ow rp tok out br) = []"
| "actionBuckets (CodeBuildAction n pr inp outs ro) = []"

record StageProps =
  stageName :: string
  actions :: "Action list"

record Pipeline =
  pipeline_id :: string
  pipelineName :: string
  crossAccountKeys :: bool
  restartExecutionOnUpdate :: bool
  stages :: "StageProps list"

text \<open>\<^verbatim>\<open>pipeline.addStage\<close> without a placement puts the stage after the ones already there.\<close>

definition addStage :: "Pipeline \<Rightarrow> StageProps \<Rightarrow> Pipeline" where
  "addStage p s = p\<lparr>stages := stages p @ [s]\<rparr>"

record CfnOutput =
  output_id :: string
  outputValue :: Token
  description :: string

subsection \<open>The stack\<close>

datatype Construct =
    BucketC Bucket
  | DistributionC Distribution
  | PipelineC Pipeline
  | PipelineProjectC PipelineProject
  | CfnOutputC CfnOutput

fun constructId :: "Construct \<Rightarrow> string" where
  "constructId (BucketC b) = bucket_id b"
| "constructId (DistributionC d) = distribution_id d"
| "constructId (PipelineC p) = pipeline_id p"
| "constructId (PipelineProjectC p) = project_id p"
| "constructId (CfnOutputC out) = output_id out"

text \<open>
  A stack is what \<^verbatim>\<open>super(scope, id, props)\<close> receives, and the constructs created with
  \<^verbatim>\<open>this\<close> as their scope, in the order of their creation and in the state the constructor
  leaves them in. The checks the toolkit makes on the stack name and on the bucket name
  while the constructor runs, and the errors they throw, come after the constructor's body,
  in \<open>new_EdaTodoFrontendPipelineStack\<close>.
\<close>

record 'p Stack =
  stack_id :: string
  stackProps :: "'p option"
  children :: "Construct list"

section \<open>EdaTodoFrontendPipelineStack\<close>

text \<open>
  The constructor calls one built-in of the host, \<^verbatim>\<open>toLocaleLowerCase\<close>, whose result
  depends on the locale of the host; it is the first argument of every definition that
  reaches the bucket. A string stands for the script's string; of a character outside ASCII
  all that matters below is that it is none of the characters the checks accept.
\<close>

definition bucketWebsite :: "(string \<Rightarrow> string) \<Rightarrow> string \<Rightarrow> Bucket" where
  "bucketWebsite toLocaleLowerCase sid =
     \<lparr>bucket_id = sid @ ''_website_bucket'',
      bucketName = toLocaleLowerCase (sid @ ''-website-bucket''),
      removalPolicy = DESTROY,
      websiteIndexDocument = ''index.html'',
      websiteErrorDocument = ''error.html'',
      publicReadAccess = True\<rparr>"

definition dist :: "(string \<Rightarrow> string) \<Rightarrow> string \<Rightarrow> Distribution" where
  "dist toLocaleLowerCase sid =
     \<lparr>distribution_id = sid @ ''_cloudfront_dist_for_website_bucket'',
      defaultBehavior =
        \<lparr>origin = S3Origin (bucketWebsite toLocaleLowerCase sid),
         viewerProtocolPolicy = REDIRECT_TO_HTTPS,
         originRequestPolicy = ALL_VIEWER\<rparr>\<rparr>"

definition outputSources :: Artifact where
  "outputSources = newArtifact 0"

definition outputWebsite :: Artifact where
  "outputWebsite = newArtifact 1"

definition websiteBuildSpec :: json where
  "websiteBuildSpec =
     JObject
      [(''version'', JString ''0.2''),
       (''phases'', JObject
          [(''install'', JObject
              [(''runtime-versions'', JObject [(''nodejs'', JString ''latest'')]),
               (''commands'', JArray
                  [JString ''npm update -g'',
                   JString ''npm install -g gatsby-cli'',
                   JString ''npm install -g yarn'',
                   JString ''yarn''])]),
           (''build'', JObject
              [(''commands'', JArray [JString ''gatsby build''])])]),
       (''artifacts'', JObject
          [(''base-directory'', JString ''./public''),
           (''files'', JArray [JString ''**/*''])])]"

definition websiteBuildProject :: "string \<Rightarrow> PipelineProject" where
  "websiteBuildProject sid =
     \<lparr>project_id = sid @ ''_codebuild_project_build_website'',
      projectName = sid @ ''_codebuild_project_build_website'',
      buildSpec = websiteBuildSpec,
      environment = Some \<lparr>buildImage = STANDARD_5_0\<rparr>,
      environmentVariables = [],
      rolePolicy = []\<rparr>"

definition invalidateBuildSpec :: json where
  \<open>invalidateBuildSpec =
     JObject
      [(''version'', JString ''0.2''),
       (''phases'', JObject
          [(''build'', JObject
              [(''commands'', JArray
                  [JString ''aws cloudfront create-invalidation --distribution-id ${CLOUDFRONT_ID} --paths "/*"''])])])]\<close>

definition invalidatePolicyStatement :: PolicyStatement where
  "invalidatePolicyStatement =
     \<lparr>effect = ALLOW,
      resources = [''*''],
      actions =
        [''cloudfront:CreateInvalidation'',
         ''cloudfront:GetDistribution*'',
         ''cloudfront:GetInvalidation'',
         ''cloudfront:ListInvalidations'',
         ''cloudfront:ListDistributions'']\<rparr>"

definition invalidateBuildProject :: "(string \<Rightarrow> string) \<Rightarrow> string \<Rightarrow> PipelineProject" where
  "invalidateBuildProject toLocaleLowerCase sid =
     addToRolePolicy
       \<lparr>project_id = sid @ ''_codebuild_project_cloudfront_cache_invalidation'',
        projectName = sid @ ''_codebuild_project_cloudfront_cache_invalidation'',
        buildSpec = invalidateBuildSpec,
        environment = None,
        environmentVariables = [(''CLOUDFRONT_ID'', distributionId (dist toLocaleLowerCase sid))],
        rolePolicy = []\<rparr>
       invalidatePolicyStatement"

definition pipeline :: "(string \<Rightarrow> string) \<Rightarrow> string \<Rightarrow> Pipeline" where
  "pipeline toLocaleLowerCase sid =
     (let p0 = \<lparr>pipeline_id = sid @ ''_pipeline'',
                pipelineName = sid @ ''_pipeline'',
                crossAccountKeys = False,
                restartExecutionOnUpdate = True,
                stages = []\<rparr>;
          p1 = addStage p0
                 \<lparr>stageName = ''Source'',
                  actions =
                    [GitHubSourceAction ''Checkout'' ''nabeelfarid'' ''eda-todo-frontend''
                       (secretsManager ''GITHUB_TOKEN_FOR_AWS'') outputSources ''master'']\<rparr>;
          p2 = addStage p1
                 \<lparr>stageName = ''Build'',
                  actions =
                    [CodeBuildAction ''Build-Gatsby-Website'' (websiteBuildProject sid)
                       outputSources (Some [outputWebsite]) None]\<rparr>;
          p3 = addStage p2
                 \<lparr>stageName = ''Deploy'',
                  actions =
                    [S3DeployAction ''DeployWebsite'' outputWebsite (bucketWebsite toLocaleLowerCase sid) (Some 1)]\<rparr>;
          p4 = addStage p3
                 \<lparr>stageName = ''CacheInvalidation'',
                  actions =
                    [CodeBuildAction ''Invalidate-Cache'' (invalidateBuildProject toLocaleLowerCase sid)
                       outputWebsite None (Some 1)]\<rparr>
      in p4)"

definition EdaTodoFrontendPipelineStack ::
  "(string \<Rightarrow> string) \<Rightarrow> string \<Rightarrow> 'p option \<Rightarrow> 'p Stack" where
  "EdaTodoFrontendPipelineStack toLocaleLowerCase sid props =
     \<lparr>stack_id = sid,
      stackProps = props,
      children =
        [BucketC (bucketWebsite toLocaleLowerCase sid),
         DistributionC (dist toLocaleLowerCase sid),
         PipelineC (pipeline toLocaleLowerCase sid),
         PipelineProjectC (websiteBuildProject sid),
         PipelineProjectC (invalidateBuildProject toLocaleLowerCase sid),
         CfnOutputC \<lparr>output_id = ''BucketWebsiteURL'',
                     outputValue = bucketWebsiteUrl (bucketWebsite toLocaleLowerCase sid),
                     description = ''Bucket Website URL''\<rparr>,
         CfnOutputC \<lparr>output_id = ''CloudFrontURL'',
                     outputValue = domainName (dist toLocaleLowerCase sid),
                     description = ''CloudFront URL''\<rparr>]\<rparr>"

subsection \<open>The checks the toolkit makes while the constructor runs\<close>

text \<open>
  Two calls of the constructor can throw. \<^verbatim>\<open>super(scope, id, props)\<close> refuses an empty id
  and a stack name that does not match \<^verbatim>\<open>/^[A-Za-z][A-Za-z0-9-]*$/\<close>; the name of a stack
  created directly under the app, as the test and the application do, is the \<open>stackName\<close> of
  its properties or else its id. \<^verbatim>\<open>new S3.Bucket\<close> refuses a bucket name that breaks the
  naming rules of the storage service. \<open>EdaTodoFrontendPipelineStack\<close> above is what the body
  of the constructor builds; \<open>new_EdaTodoFrontendPipelineStack\<close> is the expression
  \<^verbatim>\<open>new EdaTodoFrontendPipelineStack(app, id, props)\<close>, which yields that stack or the first
  error thrown.
\<close>

record StackProps =
  stackName :: "string option"

datatype error =
    EmptyConstructId
  | InvalidStackName string
  | InvalidBucketName string

definition stackNameOf :: "string \<Rightarrow> StackProps option \<Rightarrow> string" where
  "stackNameOf sid props =
     (case props of
        None \<Rightarrow> sid
      | Some ps \<Rightarrow> (case stackName ps of None \<Rightarrow> sid | Some n \<Rightarrow> n))"

definition isLetterChar :: "char \<Rightarrow> bool" where
  "isLetterChar c = (c \<in> set upperLetters \<or> c \<in> set lowerLetters)"

definition isLowerOrDigit :: "char \<Rightarrow> bool" where
  "isLowerOrDigit c = (c \<in> set lowerLetters \<or> c \<in> set digits)"

fun validStackName :: "string \<Rightarrow> bool" where
  "validStackName [] = False"
| "validStackName (c # cs) =
     (isLetterChar c
      \<and> list_all (\<lambda>d. isLetterChar d \<or> d \<in> set digits \<or> d = CHR ''-'') cs)"

fun symbolsAdjacent :: "string \<Rightarrow> bool" where
  "symbolsAdjacent (a # b # cs) =
     ((a = CHR ''.'' \<and> (b = CHR ''-'' \<or> b = CHR ''.''))
      \<or> (a = CHR ''-'' \<and> b = CHR ''.'')
      \<or> symbolsAdjacent (b # cs))"
| "symbolsAdjacent [a] = False"
| "symbolsAdjacent [] = False"

fun splitOn :: "char \<Rightarrow> string \<Rightarrow> string list" where
  "splitOn d [] = [[]]"
| "splitOn d (c # cs) =
     (if c = d then [] # splitOn d cs
      else (case splitOn d cs of [] \<Rightarrow> [[c]] | part # parts \<Rightarrow> (c # part) # parts))"

definition resemblesIpAddress :: "string \<Rightarrow> bool" where
  "resemblesIpAddress name =
     (let parts = splitOn (CHR ''.'') name
      in length parts = 4
         \<and> list_all (\<lambda>part. 1 \<le> length part \<and> length part \<le> 3
                               \<and> list_all (\<lambda>c. c \<in> set digits) part) parts)"

text \<open>
  The bucket-name check: a name that is empty is not checked; any other name must have 3 to
  63 characters, only lower-case letters, digits, periods and dashes, a lower-case letter or
  a digit at both ends, no period next to a dash or a period, and not the form of an IP
  address.
\<close>

definition validBucketName :: "string \<Rightarrow> bool" where
  "validBucketName name =
     (case name of
        [] \<Rightarrow> True
      | c # cs \<Rightarrow>
          3 \<le> length name \<and> length name \<le> 63
          \<and> list_all (\<lambda>d. isLowerOrDigit d \<or> d = CHR ''.'' \<or> d = CHR ''-'') name
          \<and> isLowerOrDigit c
          \<and> isLowerOrDigit (last (c # cs))
          \<and> \<not> symbolsAdjacent name
          \<and> \<not> resemblesIpAddress name)"

definition new_EdaTodoFrontendPipelineStack ::
  "(string \<Rightarrow> string) \<Rightarrow> string \<Rightarrow> StackProps option \<Rightarrow> error + StackProps Stack" where
  "new_EdaTodoFrontendPipelineStack toLocaleLowerCase sid props =
     (if sid = [] then Inl EmptyConstructId
      else if \<not> validStackName (stackNameOf sid props)
        then Inl (InvalidStackName (stackNameOf sid props))
      else if \<not> validBucketName (toLocaleLowerCase (sid @ ''-website-bucket''))
        then Inl (InvalidBucketName (toLocaleLowerCase (sid @ ''-website-bucket'')))
      else Inr (EdaTodoFrontendPipelineStack toLocaleLowerCase sid props))"

section \<open>Reading a stack\<close>

text \<open>
  The functions below only read what the constructor built: the constructs of one kind among
  the children of the stack, the actions of the stages with a given name, and what those
  actions refer to.
\<close>

fun bucketOf :: "Construct \<Rightarrow> Bucket list" where
  "bucketOf (BucketC b) = [b]"
| "bucketOf c = []"

fun distributionOf :: "Construct \<Rightarrow> Distribution list" where
  "distributionOf (DistributionC d) = [d]"
| "distributionOf c = []"

fun pipelineOf :: "Construct \<Rightarrow> Pipeline list" where
  "pipelineOf (PipelineC p) = [p]"
| "pipelineOf c = []"

fun outputOf :: "Construct \<Rightarrow> CfnOutput list" where
  "outputOf (CfnOutputC out) = [out]"
| "outputOf c = []"

definition buckets :: "'p Stack \<Rightarrow> Bucket list" where
  "buckets st = concat (map bucketOf (children st))"

definition distributions :: "'p Stack \<Rightarrow> Distribution list" where
  "distributions st = concat (map distributionOf (children st))"

definition pipelines :: "'p Stack \<Rightarrow> Pipeline list" where
  "pipelines st = concat (map pipelineOf (children st))"

definition stageActions :: "string \<Rightarrow> Pipeline \<Rightarrow> Action list" where
  "stageActions n p = concat (map actions (filter (\<lambda>s. stageName s = n) (stages p)))"

definition stageProjects :: "string \<Rightarrow> 'p Stack \<Rightarrow> PipelineProject list" where
  "stageProjects n st =
     concat (map (\<lambda>p. concat (map actionProjects (stageActions n p))) (pipelines st))"

definition deployBuckets :: "'p Stack \<Rightarrow> Bucket list" where
  "deployBuckets st =
     concat (map (\<lambda>p. concat (map actionBuckets (stageActions ''Deploy'' p))) (pipelines st))"

definition invalidationStatements :: "'p Stack \<Rightarrow> PolicyStatement list" where
  "invalidationStatements st = concat (map rolePolicy (stageProjects ''CacheInvalidation'' st))"

subsection \<open>The template\<close>

text \<open>
  The toolkit renders every construct of the stack into the template: an output into the
  \<open>Outputs\<close> section, every other construct into the resource it stands for and into further
  resources around it (roles, policies, the bucket of the pipeline's artifacts), which are
  not modelled. \<open>templateResources\<close> are therefore resources the \<open>Resources\<close> section of the
  template is sure to hold, each under the id of its construct, and not all of that section.
\<close>

fun resourceType :: "Construct \<Rightarrow> string list" where
  "resourceType (BucketC b) = [''AWS::S3::Bucket'']"
| "resourceType (DistributionC d) = [''AWS::CloudFront::Distribution'']"
| "resourceType (PipelineC p) = [''AWS::CodePipeline::Pipeline'']"
| "resourceType (PipelineProjectC p) = [''AWS::CodeBuild::Project'']"
| "resourceType (CfnOutputC out) = []"

definition templateResources :: "'p Stack \<Rightarrow> (string \<times> string) list" where
  "templateResources st =
     concat (map (\<lambda>c. map (\<lambda>ty. (constructId c, ty)) (resourceType c)) (children st))"

definition templateOutputs :: "'p Stack \<Rightarrow> CfnOutput list" where
  "templateOutputs st = concat (map outputOf (children st))"

text \<open>
  The repository's test \<^verbatim>\<open>Empty Stack\<close> creates the stack as \<^verbatim>\<open>MyTestStack\<close> under a new
  app, without properties, and matches its template exactly against
  \<^verbatim>\<open>{ "Resources": {} }\<close>. It can only pass when the constructor returns and the template
  has no resource and no output.
\<close>

definition Empty_Stack_test :: "(string \<Rightarrow> string) \<Rightarrow> bool" where
  "Empty_Stack_test toLocaleLowerCase =
     (case new_EdaTodoFrontendPipelineStack toLocaleLowerCase ''MyTestStack'' None of
        Inl e \<Rightarrow> False
      | Inr stack \<Rightarrow> templateResources stack = [] \<and> templateOutputs stack = [])"

subsection \<open>Static wiring of the artifacts\<close>

definition stageInputs :: "StageProps \<Rightarrow> Artifact list" where
  "stageInputs s = concat (map actionInputs (actions s))"

definition stageOutputs :: "StageProps \<Rightarrow> Artifact list" where
  "stageOutputs s = concat (map actionOutputs (actions s))"

text \<open>
  One pass over the stages in their order: every input of a stage must be among the artifacts
  produced so far, and only then do the outputs of the stage itself count as produced.
\<close>

fun checkWiring :: "Artifact list \<Rightarrow> StageProps list \<Rightarrow> bool" where
  "checkWiring produced [] = True"
| "checkWiring produced (s # ss) =
     (list_all (\<lambda>x. x \<in> set produced) (stageInputs s)
      \<and> checkWiring (produced @ stageOutputs s) ss)"

text \<open>
  A second pass: no input of a stage is an output of the stage itself or of a later stage.
\<close>

fun checkNoLaterProducer :: "StageProps list \<Rightarrow> bool" where
  "checkNoLaterProducer [] = True"
| "checkNoLaterProducer (s # ss) =
     (list_all (\<lambda>x. x \<notin> set (concat (map stageOutputs (s # ss)))) (stageInputs s)
      \<and> checkNoLaterProducer ss)"

subsection \<open>Build specifications\<close>

fun jstrings :: "json \<Rightarrow> string list" where
  "jstrings (JArray xs) = concat (map (\<lambda>x. case x of JString s \<Rightarrow> [s] | _ \<Rightarrow> []) xs)"
| "jstrings (JString s) = []"
| "jstrings (JObject kvs) = []"

definition phaseCommands :: "json \<Rightarrow> string \<Rightarrow> string list" where
  "phaseCommands spec ph =
     (case field ''phases'' spec of
        None \<Rightarrow> []
      | Some phs \<Rightarrow>
          (case field ph phs of
             None \<Rightarrow> []
           | Some phase \<Rightarrow>
               (case field ''commands'' phase of None \<Rightarrow> [] | Some cs \<Rightarrow> jstrings cs)))"

text \<open>
  The build service runs the phases of a specification in this order, whatever the order of
  the keys in the object; the script of a specification is the sequence of commands it runs.
\<close>

definition phaseOrder :: "string list" where
  "phaseOrder = [''install'', ''pre_build'', ''build'', ''post_build'']"

definition buildScript :: "json \<Rightarrow> string list" where
  "buildScript spec = concat (map (phaseCommands spec) phaseOrder)"

text \<open>
  The command line that asks for the invalidation of the paths \<open>path\<close> of the distribution
  whose identifier is in the environment variable \<open>var\<close>.
\<close>

definition invalidationCommand :: "string \<Rightarrow> string \<Rightarrow> string" where
  \<open>invalidationCommand var path =
     ''aws cloudfront create-invalidation --distribution-id ${'' @ var @ ''} --paths "'' @ path @ ''"''\<close>

subsection \<open>What a policy statement allows\<close>

text \<open>
  In a policy statement \<open>*\<close> stands for any sequence of characters and \<open>?\<close> for any single
  character; action names are compared without regard to letter case, resources as written.
\<close>

fun globMatch :: "string \<Rightarrow> string \<Rightarrow> bool" where
  "globMatch [] [] = True"
| "globMatch [] (c # cs) = False"
| "globMatch (p # ps) [] = (p = CHR ''*'' \<and> globMatch ps [])"
| "globMatch (p # ps) (c # cs) =
     (if p = CHR ''*'' then globMatch ps (c # cs) \<or> globMatch (p # ps) cs
      else (p = CHR ''?'' \<or> p = c) \<and> globMatch ps cs)"

definition actionMatches :: "string \<Rightarrow> string \<Rightarrow> bool" where
  "actionMatches pat a = globMatch (asciiLowerCase pat) (asciiLowerCase a)"

definition statementAllows :: "PolicyStatement \<Rightarrow> string \<Rightarrow> string \<Rightarrow> bool" where
  "statementAllows s a r =
     (effect s = ALLOW
      \<and> list_ex (\<lambda>pat. actionMatches pat a) (PolicyStatement.actions s)
      \<and> list_ex (\<lambda>pat. globMatch pat r) (resources s))"

text \<open>
  The five actions the specification names for the invalidation job: create-invalidation,
  get-distribution, get-invalidation, list-invalidations, list-distributions.
\<close>

definition specInvalidationActions :: "string list" where
  "specInvalidationActions =
     [''cloudfront:CreateInvalidation'',
      ''cloudfront:GetDistribution'',
      ''cloudfront:GetInvalidation'',
      ''cloudfront:ListInvalidations'',
      ''cloudfront:ListDistributions'']"

definition plain :: "string \<Rightarrow> bool" where
  "plain p = (CHR ''*'' \<notin> set p \<and> CHR ''?'' \<notin> set p)"

subsection \<open>Letter case\<close>



section \<open>What the constructor builds\<close>

lemma children_stack:
  "children (EdaTodoFrontendPipelineStack lower sid props) =
     [BucketC (bucketWebsite lower sid), DistributionC (dist lower sid), PipelineC (pipeline lower sid),
      PipelineProjectC (websiteBuildProject sid), PipelineProjectC (invalidateBuildProject lower sid),
      CfnOutputC \<lparr>output_id = ''BucketWebsiteURL'',
                  outputValue = bucketWebsiteUrl (bucketWebsite lower sid),
                  description = ''Bucket Website URL''\<rparr>,
      CfnOutputC \<lparr>output_id = ''CloudFrontURL'', outputValue = domainName (dist lower sid),
                  description = ''CloudFront URL''\<rparr>]"
  by (simp add: EdaTodoFrontendPipelineStack_def)

lemma buckets_stack: "buckets (EdaTodoFrontendPipelineStack lower sid props) = [bucketWebsite lower sid]"
  by (simp add: buckets_def children_stack)

lemma distributions_stack: "distributions (EdaTodoFrontendPipelineStack lower sid props) = [dist lower sid]"
  by (simp add: distributions_def children_stack)

lemma pipelines_stack: "pipelines (EdaTodoFrontendPipelineStack lower sid props) = [pipeline lower sid]"
  by (simp add: pipelines_def children_stack)

lemma stages_pipeline:
  "stages (pipeline lower sid) =
     [\<lparr>stageName = ''Source'',
       actions = [GitHubSourceAction ''Checkout'' ''nabeelfarid'' ''eda-todo-frontend''
                    (secretsManager ''GITHUB_TOKEN_FOR_AWS'') outputSources ''master'']\<rparr>,
      \<lparr>stageName = ''Build'',
       actions = [CodeBuildAction ''Build-Gatsby-Website'' (websiteBuildProject sid)
                    outputSources (Some [outputWebsite]) None]\<rparr>,
      \<lparr>stageName = ''Deploy'',
       actions = [S3DeployAction ''DeployWebsite'' outputWebsite (bucketWebsite lower sid) (Some 1)]\<rparr>,
      \<lparr>stageName = ''CacheInvalidation'',
       actions = [CodeBuildAction ''Invalidate-Cache'' (invalidateBuildProject lower sid)
                    outputWebsite None (Some 1)]\<rparr>]"
  by (simp add: pipeline_def addStage_def Let_def)

lemma stageProjects_Build:
  "stageProjects ''Build'' (EdaTodoFrontendPipelineStack lower sid props) = [websiteBuildProject sid]"
  by (simp add: stageProjects_def pipelines_stack stageActions_def stages_pipeline)

lemma stageProjects_CacheInvalidation:
  "stageProjects ''CacheInvalidation'' (EdaTodoFrontendPipelineStack lower sid props) =
     [invalidateBuildProject lower sid]"
  by (simp add: stageProjects_def pipelines_stack stageActions_def stages_pipeline)

lemma deployBuckets_stack:
  "deployBuckets (EdaTodoFrontendPipelineStack lower sid props) = [bucketWebsite lower sid]"
  by (simp add: deployBuckets_def pipelines_stack stageActions_def stages_pipeline)

lemma invalidationStatements_stack:
  "invalidationStatements (EdaTodoFrontendPipelineStack lower sid props) = [invalidatePolicyStatement]"
  by (simp add: invalidationStatements_def stageProjects_CacheInvalidation
      invalidateBuildProject_def addToRolePolicy_def)

lemma buildSpec_website: "buildSpec (websiteBuildProject sid) = websiteBuildSpec"
  by (simp add: websiteBuildProject_def)

lemma buildSpec_invalidate: "buildSpec (invalidateBuildProject lower sid) = invalidateBuildSpec"
  by (simp add: invalidateBuildProject_def addToRolePolicy_def)

lemma env_invalidate:
  "environmentVariables (invalidateBuildProject lower sid) =
     [(''CLOUDFRONT_ID'', distributionId (dist lower sid))]"
  by (simp add: invalidateBuildProject_def addToRolePolicy_def)



section \<open>The template of the stack\<close>

lemma resources_stack:
  "templateResources (EdaTodoFrontendPipelineStack lower sid props) =
     [(sid @ ''_website_bucket'', ''AWS::S3::Bucket''),
      (sid @ ''_cloudfront_dist_for_website_bucket'', ''AWS::CloudFront::Distribution''),
      (sid @ ''_pipeline'', ''AWS::CodePipeline::Pipeline''),
      (sid @ ''_codebuild_project_build_website'', ''AWS::CodeBuild::Project''),
      (sid @ ''_codebuild_project_cloudfront_cache_invalidation'', ''AWS::CodeBuild::Project'')]"
  by (simp add: templateResources_def children_stack bucketWebsite_def dist_def pipeline_def
      addStage_def Let_def websiteBuildProject_def invalidateBuildProject_def addToRolePolicy_def)

lemma output_ids_stack:
  "map output_id (templateOutputs (EdaTodoFrontendPipelineStack lower sid props)) =
     [''BucketWebsiteURL'', ''CloudFrontURL'']"
  by (simp add: templateOutputs_def children_stack)

lemma validStackName_MyTestStack: "validStackName ''MyTestStack''"
  by code_simp

lemma validBucketName_myteststack: "validBucketName ''myteststack-website-bucket''"
  by code_simp

lemma new_MyTestStack:
  "lower ''MyTestStack-website-bucket'' = ''myteststack-website-bucket'' \<Longrightarrow>
   new_EdaTodoFrontendPipelineStack lower ''MyTestStack'' None =
     Inr (EdaTodoFrontendPipelineStack lower ''MyTestStack'' None)"
  using validStackName_MyTestStack validBucketName_myteststack
  by (simp add: new_EdaTodoFrontendPipelineStack_def stackNameOf_def del: validStackName.simps)

text \<open>
  Claim C1. The claim, and the repository's test \<^verbatim>\<open>Empty Stack\<close> with it, say that the
  stack created as \<open>MyTestStack\<close> without properties has a template with no resources. The
  constructor does not do that. Whatever the host's lowering of letter case, the test does
  not pass; and on a host that lowers the bucket name of the test as expected, the
  constructor returns a stack whose template holds at least the bucket, the distribution,
  the pipeline and the two build projects, and two outputs.
\<close>

theorem Empty_Stack_test_fails:
  "\<not> Empty_Stack_test lower
   \<and> (lower ''MyTestStack-website-bucket'' = ''myteststack-website-bucket'' \<longrightarrow>
        (\<exists>st. new_EdaTodoFrontendPipelineStack lower ''MyTestStack'' None = Inr st
           \<and> templateResources st =
               [(''MyTestStack_website_bucket'', ''AWS::S3::Bucket''),
                (''MyTestStack_cloudfront_dist_for_website_bucket'', ''AWS::CloudFront::Distribution''),
                (''MyTestStack_pipeline'', ''AWS::CodePipeline::Pipeline''),
                (''MyTestStack_codebuild_project_build_website'', ''AWS::CodeBuild::Project''),
                (''MyTestStack_codebuild_project_cloudfront_cache_invalidation'',
                 ''AWS::CodeBuild::Project'')]
           \<and> map output_id (templateOutputs st) = [''BucketWebsiteURL'', ''CloudFrontURL'']))"
proof -
  have a: "\<not> Empty_Stack_test lower"
  proof (cases "new_EdaTodoFrontendPipelineStack lower ''MyTestStack'' None")
    case (Inl e)
    then show ?thesis by (simp add: Empty_Stack_test_def)
  next
    case (Inr st)
    then have "st = EdaTodoFrontendPipelineStack lower ''MyTestStack'' None"
      by (simp add: new_EdaTodoFrontendPipelineStack_def split: if_splits)
    then have "templateResources st \<noteq> []"
      by (simp only: resources_stack) simp
    with Inr show ?thesis by (simp add: Empty_Stack_test_def)
  qed
  have b: "lower ''MyTestStack-website-bucket'' = ''myteststack-website-bucket'' \<longrightarrow>
        (\<exists>st. new_EdaTodoFrontendPipelineStack lower ''MyTestStack'' None = Inr st
           \<and> templateResources st =
               [(''MyTestStack_website_bucket'', ''AWS::S3::Bucket''),
                (''MyTestStack_cloudfront_dist_for_website_bucket'', ''AWS::CloudFront::Distribution''),
                (''MyTestStack_pipeline'', ''AWS::CodePipeline::Pipeline''),
                (''MyTestStack_codebuild_project_build_website'', ''AWS::CodeBuild::Project''),
                (''MyTestStack_codebuild_project_cloudfront_cache_invalidation'',
                 ''AWS::CodeBuild::Project'')]
           \<and> map output_id (templateOutputs st) = [''BucketWebsiteURL'', ''CloudFrontURL''])"
  proof
    assume h: "lower ''MyTestStack-website-bucket'' = ''myteststack-website-bucket''"
    show "\<exists>st. new_EdaTodoFrontendPipelineStack lower ''MyTestStack'' None = Inr st
           \<and> templateResources st =
               [(''MyTestStack_website_bucket'', ''AWS::S3::Bucket''),
                (''MyTestStack_cloudfront_dist_for_website_bucket'', ''AWS::CloudFront::Distribution''),
                (''MyTestStack_pipeline'', ''AWS::CodePipeline::Pipeline''),
                (''MyTestStack_codebuild_project_build_website'', ''AWS::CodeBuild::Project''),
                (''MyTestStack_codebuild_project_cloudfront_cache_invalidation'',
                 ''AWS::CodeBuild::Project'')]
           \<and> map output_id (templateOutputs st) = [''BucketWebsiteURL'', ''CloudFrontURL'']"
      by (simp add: new_MyTestStack [of lower, OF h] resources_stack output_ids_stack)
  qed
  from a b show ?thesis by (rule conjI)
qed

lemma lower_MyTestStack: "asciiLowerCase ''MyTestStack-website-bucket'' = ''myteststack-website-bucket''"
  by code_simp

theorem Empty_Stack_test_fails_witness:
  "asciiLowerCase ''MyTestStack-website-bucket'' = ''myteststack-website-bucket''
   \<and> \<not> Empty_Stack_test asciiLowerCase
   \<and> (\<exists>st. new_EdaTodoFrontendPipelineStack asciiLowerCase ''MyTestStack'' None = Inr st
           \<and> templateResources st =
               [(''MyTestStack_website_bucket'', ''AWS::S3::Bucket''),
                (''MyTestStack_cloudfront_dist_for_website_bucket'', ''AWS::CloudFront::Distribution''),
                (''MyTestStack_pipeline'', ''AWS::CodePipeline::Pipeline''),
                (''MyTestStack_codebuild_project_build_website'', ''AWS::CodeBuild::Project''),
                (''MyTestStack_codebuild_project_cloudfront_cache_invalidation'',
                 ''AWS::CodeBuild::Project'')]
           \<and> map output_id (templateOutputs st) = [''BucketWebsiteURL'', ''CloudFrontURL''])"
  using Empty_Stack_test_fails [of asciiLowerCase] lower_MyTestStack by blast

section \<open>The stages of the pipeline\<close>

text \<open>
  Claim C2. For every stack id and every properties, the stack has one pipeline, and its
  stages are exactly four, named Source, Build, Deploy and CacheInvalidation, in this order.
\<close>

theorem pipeline_has_four_stages_in_order:
  "map (\<lambda>p. map stageName (stages p)) (pipelines (EdaTodoFrontendPipelineStack lower sid props)) =
     [[''Source'', ''Build'', ''Deploy'', ''CacheInvalidation'']]"
  by (simp add: pipelines_stack stages_pipeline)

theorem pipeline_has_four_stages_in_order_witness:
  "map (\<lambda>p. map stageName (stages p))
     (pipelines (EdaTodoFrontendPipelineStack asciiLowerCase ''MyTestStack'' (None :: unit option))) =
     [[''Source'', ''Build'', ''Deploy'', ''CacheInvalidation'']]"
  using pipeline_has_four_stages_in_order [of asciiLowerCase "''MyTestStack''" "None :: unit option"]
  by simp

section \<open>The wiring of the artifacts\<close>

text \<open>
  The pass over the stages is sound: when it succeeds, every input of the stage at position
  \<open>i\<close> was given at the start or is an output of a stage at a position below \<open>i\<close>.
\<close>

lemma checkWiring_sound:
  "checkWiring produced ss \<Longrightarrow> i < length ss \<Longrightarrow> x \<in> set (stageInputs (ss ! i)) \<Longrightarrow>
   x \<in> set produced \<or> (\<exists>j<i. x \<in> set (stageOutputs (ss ! j)))"
proof (induction ss arbitrary: produced i)
  case Nil
  then show ?case by simp
next
  case (Cons s ss)
  show ?case
  proof (cases i)
    case 0
    with Cons.prems show ?thesis by (simp add: list_all_iff)
  next
    case (Suc k)
    with Cons.prems have "checkWiring (produced @ stageOutputs s) ss" "k < length ss"
      "x \<in> set (stageInputs (ss ! k))" by simp_all
    from Cons.IH [OF this]
    have "x \<in> set produced \<or> x \<in> set (stageOutputs s)
          \<or> (\<exists>j<k. x \<in> set (stageOutputs (ss ! j)))"
      by auto
    then consider "x \<in> set produced" | "x \<in> set (stageOutputs s)"
      | j where "j < k" "x \<in> set (stageOutputs (ss ! j))" by blast
    then show ?thesis
    proof cases
      case 1
      then show ?thesis by simp
    next
      case 2
      then have "0 < i \<and> x \<in> set (stageOutputs ((s # ss) ! 0))" using Suc by simp
      then show ?thesis by blast
    next
      case 3
      then have "Suc j < i \<and> x \<in> set (stageOutputs ((s # ss) ! Suc j))" using Suc by simp
      then show ?thesis by blast
    qed
  qed
qed

lemma checkNoLaterProducer_sound:
  "checkNoLaterProducer ss \<Longrightarrow> i < length ss \<Longrightarrow> x \<in> set (stageInputs (ss ! i)) \<Longrightarrow>
   i \<le> k \<Longrightarrow> k < length ss \<Longrightarrow> x \<notin> set (stageOutputs (ss ! k))"
proof (induction ss arbitrary: i k)
  case Nil
  then show ?case by simp
next
  case (Cons s ss)
  show ?case
  proof (cases i)
    case 0
    with Cons.prems have "x \<notin> set (concat (map stageOutputs (s # ss)))"
      by (simp add: list_all_iff)
    moreover have "(s # ss) ! k \<in> set (s # ss)"
      using Cons.prems(5) by (rule nth_mem)
    ultimately show ?thesis by auto
  next
    case (Suc i')
    with Cons.prems obtain k' where k: "k = Suc k'" by (cases k) auto
    with Suc Cons.prems have "checkNoLaterProducer ss" "i' < length ss"
      "x \<in> set (stageInputs (ss ! i'))" "i' \<le> k'" "k' < length ss"
      by simp_all
    from Cons.IH [OF this] k show ?thesis by simp
  qed
qed

lemma artifacts_distinct: "outputSources \<noteq> outputWebsite"
  by (simp add: outputSources_def outputWebsite_def newArtifact_def)

lemma checkNoLaterProducer_pipeline: "checkNoLaterProducer (stages (pipeline lower sid))"
  using artifacts_distinct
  by (simp add: stages_pipeline stageInputs_def stageOutputs_def)

lemma checkWiring_pipeline: "checkWiring [] (stages (pipeline lower sid))"
  by (simp add: stages_pipeline stageInputs_def stageOutputs_def)

text \<open>
  Claim C3. In the pipeline of the stack, every input artifact of every action is an output
  of an action in a strictly earlier stage, and of no action in its own stage or in a later
  one: none refers forward, none to its own stage, and none is never produced.
\<close>

theorem inputs_produced_by_strictly_earlier_stage:
  assumes "p \<in> set (pipelines (EdaTodoFrontendPipelineStack lower sid props))"
    and "i < length (stages p)"
    and "a \<in> set (actions (stages p ! i))"
    and "x \<in> set (actionInputs a)"
  shows "(\<exists>j<i. \<exists>b \<in> set (actions (stages p ! j)). x \<in> set (actionOutputs b))
         \<and> (\<forall>k. i \<le> k \<and> k < length (stages p) \<longrightarrow>
               (\<forall>b \<in> set (actions (stages p ! k)). x \<notin> set (actionOutputs b)))"
proof -
  from assms(1) have p: "p = pipeline lower sid" by (simp add: pipelines_stack)
  from assms(3,4) have x: "x \<in> set (stageInputs (stages p ! i))"
    by (auto simp: stageInputs_def)
  with checkWiring_sound [OF checkWiring_pipeline [of lower sid], of i x] assms(2) p
  obtain j where "j < i" "x \<in> set (stageOutputs (stages p ! j))" by auto
  then have earlier: "\<exists>j<i. \<exists>b \<in> set (actions (stages p ! j)). x \<in> set (actionOutputs b)"
    by (auto simp: stageOutputs_def)
  have later: "\<forall>k. i \<le> k \<and> k < length (stages p) \<longrightarrow>
               (\<forall>b \<in> set (actions (stages p ! k)). x \<notin> set (actionOutputs b))"
  proof (intro allI impI ballI)
    fix k b
    assume k: "i \<le> k \<and> k < length (stages p)" and b: "b \<in> set (actions (stages p ! k))"
    from checkNoLaterProducer_sound [OF checkNoLaterProducer_pipeline [of lower sid], of i x k]
      x assms(2) k p
    have "x \<notin> set (stageOutputs (stages p ! k))" by simp
    with b show "x \<notin> set (actionOutputs b)" by (auto simp: stageOutputs_def)
  qed
  from earlier later show ?thesis by (rule conjI)
qed

theorem inputs_produced_by_strictly_earlier_stage_witness:
  "pipeline asciiLowerCase ''MyTestStack''
     \<in> set (pipelines (EdaTodoFrontendPipelineStack asciiLowerCase ''MyTestStack'' (None :: unit option)))
   \<and> 1 < length (stages (pipeline asciiLowerCase ''MyTestStack''))
   \<and> CodeBuildAction ''Build-Gatsby-Website'' (websiteBuildProject ''MyTestStack'')
         outputSources (Some [outputWebsite]) None
       \<in> set (actions (stages (pipeline asciiLowerCase ''MyTestStack'') ! 1))
   \<and> outputSources \<in> set (actionInputs
        (CodeBuildAction ''Build-Gatsby-Website'' (websiteBuildProject ''MyTestStack'')
           outputSources (Some [outputWebsite]) None))
   \<and> (\<exists>j<1. \<exists>b \<in> set (actions (stages (pipeline asciiLowerCase ''MyTestStack'') ! j)).
          outputSources \<in> set (actionOutputs b))
   \<and> \<not> (\<exists>b \<in> set (actions (stages (pipeline asciiLowerCase ''MyTestStack'') ! 1)).
          outputSources \<in> set (actionOutputs b))
   \<and> \<not> (\<exists>b \<in> set (actions (stages (pipeline asciiLowerCase ''MyTestStack'') ! 2)).
          outputSources \<in> set (actionOutputs b))
   \<and> \<not> (\<exists>b \<in> set (actions (stages (pipeline asciiLowerCase ''MyTestStack'') ! 3)).
          outputSources \<in> set (actionOutputs b))"
proof -
  have len: "length (stages (pipeline asciiLowerCase ''MyTestStack'')) = 4"
    by (simp add: stages_pipeline)
  have h1: "pipeline asciiLowerCase ''MyTestStack''
     \<in> set (pipelines (EdaTodoFrontendPipelineStack asciiLowerCase ''MyTestStack'' (None :: unit option)))"
    by (simp add: pipelines_stack)
  have h2: "1 < length (stages (pipeline asciiLowerCase ''MyTestStack''))"
    by (simp add: stages_pipeline)
  have h3: "CodeBuildAction ''Build-Gatsby-Website'' (websiteBuildProject ''MyTestStack'')
         outputSources (Some [outputWebsite]) None
       \<in> set (actions (stages (pipeline asciiLowerCase ''MyTestStack'') ! 1))"
    by (simp add: stages_pipeline)
  have h4: "outputSources \<in> set (actionInputs
        (CodeBuildAction ''Build-Gatsby-Website'' (websiteBuildProject ''MyTestStack'')
           outputSources (Some [outputWebsite]) None))"
    by simp
  note t = inputs_produced_by_strictly_earlier_stage [OF h1 h2 h3 h4]
  from t have later: "\<And>k. 1 \<le> k \<Longrightarrow> k < 4 \<Longrightarrow>
      \<not> (\<exists>b \<in> set (actions (stages (pipeline asciiLowerCase ''MyTestStack'') ! k)).
          outputSources \<in> set (actionOutputs b))"
    unfolding len by blast
  from t have earlier:
    "\<exists>j<1. \<exists>b \<in> set (actions (stages (pipeline asciiLowerCase ''MyTestStack'') ! j)).
          outputSources \<in> set (actionOutputs b)"
    by (rule conjunct1)
  from h1 h2 h3 h4 earlier later [of 1] later [of 2] later [of 3]
  show ?thesis by simp
qed

section \<open>The bucket, the distribution and the invalidation\<close>

text \<open>
  Claim C4. The bucket the deploy action of the Deploy stage uploads to is the bucket that is
  the origin of the distribution of the stack; it is the one bucket the stack creates.
\<close>

theorem deploy_bucket_is_distribution_origin:
  "deployBuckets (EdaTodoFrontendPipelineStack lower sid props) =
     map (\<lambda>d. originBucket (origin (defaultBehavior d)))
       (distributions (EdaTodoFrontendPipelineStack lower sid props))
   \<and> deployBuckets (EdaTodoFrontendPipelineStack lower sid props) =
       buckets (EdaTodoFrontendPipelineStack lower sid props)
   \<and> length (deployBuckets (EdaTodoFrontendPipelineStack lower sid props)) = 1"
  by (simp add: deployBuckets_stack distributions_stack buckets_stack dist_def)

theorem deploy_bucket_is_distribution_origin_witness:
  "deployBuckets (EdaTodoFrontendPipelineStack asciiLowerCase ''MyTestStack'' (None :: unit option)) =
     map (\<lambda>d. originBucket (origin (defaultBehavior d)))
       (distributions (EdaTodoFrontendPipelineStack asciiLowerCase ''MyTestStack'' (None :: unit option)))
   \<and> deployBuckets (EdaTodoFrontendPipelineStack asciiLowerCase ''MyTestStack'' (None :: unit option)) =
       buckets (EdaTodoFrontendPipelineStack asciiLowerCase ''MyTestStack'' (None :: unit option))
   \<and> length (deployBuckets (EdaTodoFrontendPipelineStack asciiLowerCase ''MyTestStack'' (None :: unit option))) = 1"
  by (rule deploy_bucket_is_distribution_origin [of asciiLowerCase "''MyTestStack''" "None :: unit option"])

lemma phaseCommands_invalidate:
  "phaseCommands invalidateBuildSpec ''build'' = [invalidationCommand ''CLOUDFRONT_ID'' ''/*'']"
  by (simp add: phaseCommands_def invalidateBuildSpec_def invalidationCommand_def)

lemma buildScript_invalidate:
  "buildScript invalidateBuildSpec = [invalidationCommand ''CLOUDFRONT_ID'' ''/*'']"
  by (simp add: buildScript_def phaseOrder_def phaseCommands_def invalidateBuildSpec_def
      invalidationCommand_def)

text \<open>
  Claim C5. The build project of the CacheInvalidation stage binds the environment variable
  \<open>CLOUDFRONT_ID\<close> to the identifier of the distribution of the stack, whose origin is the
  bucket of the stack; its build phase, and its whole script, is one command: the
  invalidation of the paths \<open>/*\<close> of the distribution named by that variable.
\<close>

theorem invalidation_project_targets_the_distribution:
  "map (\<lambda>p. map_of (environmentVariables p) ''CLOUDFRONT_ID'')
       (stageProjects ''CacheInvalidation'' (EdaTodoFrontendPipelineStack lower sid props)) =
     map (\<lambda>d. Some (distributionId d)) (distributions (EdaTodoFrontendPipelineStack lower sid props))
   \<and> map (\<lambda>d. originBucket (origin (defaultBehavior d)))
        (distributions (EdaTodoFrontendPipelineStack lower sid props)) =
       buckets (EdaTodoFrontendPipelineStack lower sid props)
   \<and> map (\<lambda>p. phaseCommands (buildSpec p) ''build'')
        (stageProjects ''CacheInvalidation'' (EdaTodoFrontendPipelineStack lower sid props)) =
       [[invalidationCommand ''CLOUDFRONT_ID'' ''/*'']]
   \<and> map (\<lambda>p. buildScript (buildSpec p))
        (stageProjects ''CacheInvalidation'' (EdaTodoFrontendPipelineStack lower sid props)) =
       [[invalidationCommand ''CLOUDFRONT_ID'' ''/*'']]"
  by (simp add: stageProjects_CacheInvalidation distributions_stack buckets_stack env_invalidate
      buildSpec_invalidate buildScript_invalidate phaseCommands_invalidate dist_def)

theorem invalidation_project_targets_the_distribution_witness:
  \<open>map (\<lambda>p. map_of (environmentVariables p) ''CLOUDFRONT_ID'')
       (stageProjects ''CacheInvalidation''
          (EdaTodoFrontendPipelineStack asciiLowerCase ''MyTestStack'' (None :: unit option))) =
     [Some (DistributionId ''MyTestStack_cloudfront_dist_for_website_bucket'')]
   \<and> map (\<lambda>p. buildScript (buildSpec p))
        (stageProjects ''CacheInvalidation''
           (EdaTodoFrontendPipelineStack asciiLowerCase ''MyTestStack'' (None :: unit option))) =
       [[''aws cloudfront create-invalidation --distribution-id ${CLOUDFRONT_ID} --paths "/*"'']]\<close>
  using invalidation_project_targets_the_distribution [of asciiLowerCase "''MyTestStack''" "None :: unit option"]
  by (simp add: distributions_stack dist_def distributionId_def invalidationCommand_def)

section \<open>The policy of the invalidation project\<close>

lemma globMatch_plain: "plain p \<Longrightarrow> globMatch p s = (s = p)"
  by (induction p s rule: globMatch.induct) (auto simp: plain_def)

lemma globMatch_star: "globMatch ''*'' s"
  by (induction s) auto

lemma globMatch_plain_star: "plain p \<Longrightarrow> globMatch (p @ ''*'') s = prefix p s"
proof (induction p arbitrary: s)
  case Nil
  then show ?case by (simp add: globMatch_star)
next
  case (Cons a p)
  then have "plain p" "a \<noteq> CHR ''*''" "a \<noteq> CHR ''?''" by (auto simp: plain_def)
  with Cons.IH show ?case by (cases s) auto
qed

lemma lower_patterns:
  "asciiLowerCase ''cloudfront:CreateInvalidation'' = ''cloudfront:createinvalidation''"
  "asciiLowerCase ''cloudfront:GetDistribution*'' = ''cloudfront:getdistribution'' @ ''*''"
  "asciiLowerCase ''cloudfront:GetInvalidation'' = ''cloudfront:getinvalidation''"
  "asciiLowerCase ''cloudfront:ListInvalidations'' = ''cloudfront:listinvalidations''"
  "asciiLowerCase ''cloudfront:ListDistributions'' = ''cloudfront:listdistributions''"
  by code_simp+

lemma plain_patterns:
  "plain ''cloudfront:createinvalidation''"
  "plain ''cloudfront:getdistribution''"
  "plain ''cloudfront:getinvalidation''"
  "plain ''cloudfront:listinvalidations''"
  "plain ''cloudfront:listdistributions''"
  by (simp_all add: plain_def)

lemma statementAllows_invalidate:
  "statementAllows invalidatePolicyStatement a r =
     (asciiLowerCase a \<in> {''cloudfront:createinvalidation'', ''cloudfront:getinvalidation'',
                              ''cloudfront:listinvalidations'', ''cloudfront:listdistributions''}
      \<or> prefix ''cloudfront:getdistribution'' (asciiLowerCase a))"
proof -
  have "statementAllows invalidatePolicyStatement a r =
     (actionMatches ''cloudfront:CreateInvalidation'' a
      \<or> actionMatches ''cloudfront:GetDistribution*'' a
      \<or> actionMatches ''cloudfront:GetInvalidation'' a
      \<or> actionMatches ''cloudfront:ListInvalidations'' a
      \<or> actionMatches ''cloudfront:ListDistributions'' a)"
    by (simp add: statementAllows_def invalidatePolicyStatement_def globMatch_star)
  also have "\<dots> =
     (asciiLowerCase a = ''cloudfront:createinvalidation''
      \<or> prefix ''cloudfront:getdistribution'' (asciiLowerCase a)
      \<or> asciiLowerCase a = ''cloudfront:getinvalidation''
      \<or> asciiLowerCase a = ''cloudfront:listinvalidations''
      \<or> asciiLowerCase a = ''cloudfront:listdistributions'')"
    unfolding actionMatches_def lower_patterns
    by (simp only: globMatch_plain [OF plain_patterns(1)] globMatch_plain [OF plain_patterns(3)]
        globMatch_plain [OF plain_patterns(4)] globMatch_plain [OF plain_patterns(5)]
        globMatch_plain_star [OF plain_patterns(2)])
  finally show ?thesis by auto
qed

text \<open>
  Claim C6, as amended. The invalidation project has one policy statement. It allows, on all
  resources, the five action patterns CreateInvalidation, GetDistribution*, GetInvalidation,
  ListInvalidations and ListDistributions of the service \<open>cloudfront\<close>. The second is a
  wildcard: an action is allowed exactly when its name, letter case apart, is one of the
  other four or starts with \<open>cloudfront:GetDistribution\<close>. So more than the five named
  actions are allowed.
\<close>

theorem invalidation_policy_allows_patterns:
  "invalidationStatements (EdaTodoFrontendPipelineStack lower sid props) =
     [\<lparr>effect = ALLOW, resources = [''*''],
       actions = [''cloudfront:CreateInvalidation'', ''cloudfront:GetDistribution*'',
                  ''cloudfront:GetInvalidation'', ''cloudfront:ListInvalidations'',
                  ''cloudfront:ListDistributions'']\<rparr>]
   \<and> list_ex (\<lambda>s. statementAllows s a r)
        (invalidationStatements (EdaTodoFrontendPipelineStack lower sid props)) =
       (asciiLowerCase a \<in> {''cloudfront:createinvalidation'', ''cloudfront:getinvalidation'',
                                ''cloudfront:listinvalidations'', ''cloudfront:listdistributions''}
        \<or> prefix ''cloudfront:getdistribution'' (asciiLowerCase a))"
  by (simp only: invalidationStatements_stack list_ex_Cons_iff list_ex_Nil_iff simp_thms
      statementAllows_invalidate)
     (simp add: invalidatePolicyStatement_def)

theorem invalidation_policy_allows_patterns_witness:
  "list_ex (\<lambda>s. statementAllows s ''cloudfront:CreateInvalidation''
                  ''arn:aws:cloudfront::123456789012:distribution/E2EXAMPLE'')
     (invalidationStatements (EdaTodoFrontendPipelineStack asciiLowerCase ''MyTestStack'' (None :: unit option)))
   \<and> \<not> list_ex (\<lambda>s. statementAllows s ''cloudfront:DeleteDistribution''
                  ''arn:aws:cloudfront::123456789012:distribution/E2EXAMPLE'')
     (invalidationStatements (EdaTodoFrontendPipelineStack asciiLowerCase ''MyTestStack'' (None :: unit option)))"
proof -
  have 1: "asciiLowerCase ''cloudfront:DeleteDistribution'' = ''cloudfront:deletedistribution''"
    by code_simp
  note create = invalidation_policy_allows_patterns [of asciiLowerCase "''MyTestStack''" "None :: unit option"
        "''cloudfront:CreateInvalidation''"
        "''arn:aws:cloudfront::123456789012:distribution/E2EXAMPLE''", THEN conjunct2]
  note delete = invalidation_policy_allows_patterns [of asciiLowerCase "''MyTestStack''" "None :: unit option"
        "''cloudfront:DeleteDistribution''"
        "''arn:aws:cloudfront::123456789012:distribution/E2EXAMPLE''", THEN conjunct2]
  have yes: "list_ex (\<lambda>s. statementAllows s ''cloudfront:CreateInvalidation''
                  ''arn:aws:cloudfront::123456789012:distribution/E2EXAMPLE'')
     (invalidationStatements (EdaTodoFrontendPipelineStack asciiLowerCase ''MyTestStack'' (None :: unit option)))"
    unfolding create lower_patterns by simp
  have no: "\<not> list_ex (\<lambda>s. statementAllows s ''cloudfront:DeleteDistribution''
                  ''arn:aws:cloudfront::123456789012:distribution/E2EXAMPLE'')
     (invalidationStatements (EdaTodoFrontendPipelineStack asciiLowerCase ''MyTestStack'' (None :: unit option)))"
    unfolding delete 1 by simp
  from yes no show ?thesis by (rule conjI)
qed

text \<open>
  The claim as it is stated fails: the statement allows \<open>cloudfront:GetDistributionConfig\<close>,
  which is none of the five actions the specification names.
\<close>

theorem invalidation_policy_counterexample:
  "\<not> (\<forall>a r. list_ex (\<lambda>s. statementAllows s a r)
              (invalidationStatements
                 (EdaTodoFrontendPipelineStack asciiLowerCase ''MyTestStack'' (None :: unit option)))
           = list_ex (\<lambda>n. actionMatches n a) specInvalidationActions)"
proof
  assume h: "\<forall>a r. list_ex (\<lambda>s. statementAllows s a r)
              (invalidationStatements
                 (EdaTodoFrontendPipelineStack asciiLowerCase ''MyTestStack'' (None :: unit option)))
           = list_ex (\<lambda>n. actionMatches n a) specInvalidationActions"
  have 1: "list_ex (\<lambda>s. statementAllows s ''cloudfront:GetDistributionConfig'' ''*'')
            (invalidationStatements
               (EdaTodoFrontendPipelineStack asciiLowerCase ''MyTestStack'' (None :: unit option)))"
    unfolding invalidationStatements_stack by code_simp
  have 2: "\<not> list_ex (\<lambda>n. actionMatches n ''cloudfront:GetDistributionConfig'')
              specInvalidationActions"
    by code_simp
  from h 1 2 show False by blast
qed

section \<open>The build specification of the website\<close>

text \<open>
  Claim C7. The artifacts section of the build specification of the Build stage's project has
  exactly two fields: \<open>base-directory\<close>, which is \<open>./public\<close>, and \<open>files\<close>, which is the
  list of the one glob \<open>**/*\<close>.
\<close>

theorem website_artifacts_section:
  "map (\<lambda>p. field ''artifacts'' (buildSpec p))
       (stageProjects ''Build'' (EdaTodoFrontendPipelineStack lower sid props)) =
     [Some (JObject [(''base-directory'', JString ''./public''),
                     (''files'', JArray [JString ''**/*''])])]"
  by (simp add: stageProjects_Build buildSpec_website websiteBuildSpec_def)

theorem website_artifacts_section_witness:
  "map (\<lambda>p. map_option fieldNames (field ''artifacts'' (buildSpec p)))
       (stageProjects ''Build'' (EdaTodoFrontendPipelineStack asciiLowerCase ''MyTestStack'' (None :: unit option))) =
     [Some [''base-directory'', ''files'']]"
proof -
  have "map (\<lambda>p. map_option fieldNames (field ''artifacts'' (buildSpec p)))
       (stageProjects ''Build'' (EdaTodoFrontendPipelineStack asciiLowerCase ''MyTestStack'' (None :: unit option))) =
     map (map_option fieldNames) (map (\<lambda>p. field ''artifacts'' (buildSpec p))
       (stageProjects ''Build'' (EdaTodoFrontendPipelineStack asciiLowerCase ''MyTestStack'' (None :: unit option))))"
    by simp
  also have "\<dots> = [Some [''base-directory'', ''files'']]"
    by (simp only: website_artifacts_section [of asciiLowerCase "''MyTestStack''" "None :: unit option"]) simp
  finally show ?thesis .
qed

lemma phaseCommands_website_install:
  "phaseCommands websiteBuildSpec ''install'' =
     [''npm update -g'', ''npm install -g gatsby-cli'', ''npm install -g yarn'', ''yarn'']"
  by (simp add: phaseCommands_def websiteBuildSpec_def)

lemma phaseCommands_website_pre_build: "phaseCommands websiteBuildSpec ''pre_build'' = []"
  by (simp add: phaseCommands_def websiteBuildSpec_def)

lemma phaseCommands_website_build:
  "phaseCommands websiteBuildSpec ''build'' = [''gatsby build'']"
  by (simp add: phaseCommands_def websiteBuildSpec_def)

lemma phaseCommands_website_post_build: "phaseCommands websiteBuildSpec ''post_build'' = []"
  by (simp add: phaseCommands_def websiteBuildSpec_def)

lemma buildScript_website:
  "buildScript websiteBuildSpec =
     [''npm update -g'', ''npm install -g gatsby-cli'', ''npm install -g yarn'', ''yarn'',
      ''gatsby build'']"
  by (simp add: buildScript_def phaseOrder_def phaseCommands_website_install
      phaseCommands_website_build phaseCommands_website_pre_build
      phaseCommands_website_post_build)

text \<open>
  Claim C8. The install phase of the website build project runs, in this order, the update of
  the package manager, the installation of the generator's command line, the installation of
  the dependency manager and the resolution of the dependencies; the build phase runs the
  generator; and in the script the build service runs, the generator comes after all four.
\<close>

theorem website_build_command_order:
  "map (\<lambda>p. phaseCommands (buildSpec p) ''install'')
       (stageProjects ''Build'' (EdaTodoFrontendPipelineStack lower sid props)) =
     [[''npm update -g'', ''npm install -g gatsby-cli'', ''npm install -g yarn'', ''yarn'']]
   \<and> map (\<lambda>p. phaseCommands (buildSpec p) ''build'')
        (stageProjects ''Build'' (EdaTodoFrontendPipelineStack lower sid props)) =
       [[''gatsby build'']]
   \<and> map (\<lambda>p. buildScript (buildSpec p))
        (stageProjects ''Build'' (EdaTodoFrontendPipelineStack lower sid props)) =
       [[''npm update -g'', ''npm install -g gatsby-cli'', ''npm install -g yarn'', ''yarn'',
         ''gatsby build'']]"
  by (simp add: stageProjects_Build buildSpec_website phaseCommands_website_install
      phaseCommands_website_build buildScript_website)

theorem website_build_command_order_witness:
  "map (\<lambda>p. buildScript (buildSpec p))
        (stageProjects ''Build'' (EdaTodoFrontendPipelineStack asciiLowerCase ''MyTestStack'' (None :: unit option))) =
       [[''npm update -g'', ''npm install -g gatsby-cli'', ''npm install -g yarn'', ''yarn'',
         ''gatsby build'']]"
  using website_build_command_order [of asciiLowerCase "''MyTestStack''" "None :: unit option"]
  by blast

section \<open>The name of the website bucket\<close>





































end
